theory Spec2Isabelle
  imports Complex_Main "HOL-Library.AList"
begin

section \<open>Python values, errors and the world of \<^verbatim>\<open>main.py\<close>\<close>

text \<open>
  The script is Python: values are dynamically typed and every failure is an exception.
  What \<^verbatim>\<open>json.load\<close> and \<^verbatim>\<open>response.json()\<close> return is a value of \<open>json\<close>; a Python
  \<^verbatim>\<open>dict\<close> is an association list in insertion order, read with \<open>map_of\<close> and written
  with \<open>AList.update\<close> (an existing key keeps its place, a new key goes last, as in
  Python). \<^verbatim>\<open>None\<close> is \<open>JNull\<close>. Numbers are real numbers: rounding and overflow of
  IEEE doubles are not modelled.
\<close>

datatype json =
    JNull
  | JBool bool
  | JNum real
  | JStr string
  | JArr "json list"
  | JObj "(string \<times> json) list"

text \<open>
  The exceptions the script can end with. The two \<^verbatim>\<open>raise Exception(f"...")\<close> of the
  class carry the HTTP status code and the response text of their message.
\<close>

datatype error =
    NameError string
  | UnboundLocalError string
  | KeyError string
  | TypeError
  | AttributeError
  | ValueError
  | JSONDecodeError
  | TokenRequestFailed int string
  | TokenMissing
  | DataRequestFailed int string
  | CalendarError

text \<open>Truth value of a Python object (\<^verbatim>\<open>if x\<close>, \<^verbatim>\<open>x and y\<close>, \<^verbatim>\<open>not x\<close>).\<close>

fun truthy :: "json \<Rightarrow> bool" where
  "truthy JNull = False"
| "truthy (JBool b) = b"
| "truthy (JNum r) = (r \<noteq> 0)"
| "truthy (JStr s) = (s \<noteq> [])"
| "truthy (JArr xs) = (xs \<noteq> [])"
| "truthy (JObj kvs) = (kvs \<noteq> [])"

text \<open>
  The number a value stands for in arithmetic and in an order comparison with a float
  (\<^verbatim>\<open>bool\<close> is a subclass of \<^verbatim>\<open>int\<close>); \<open>None\<close> where Python raises \<^verbatim>\<open>TypeError\<close>.
\<close>

fun num_of :: "json \<Rightarrow> real option" where
  "num_of (JNum r) = Some r"
| "num_of (JBool b) = Some (if b then 1 else 0)"
| "num_of _ = None"

text \<open>\<^verbatim>\<open>d[k]\<close> with a string key: only a dict holding the key answers.\<close>

fun getitem :: "json \<Rightarrow> string \<Rightarrow> error + json" where
  "getitem (JObj kvs) k = (case map_of kvs k of None \<Rightarrow> Inl (KeyError k) | Some v \<Rightarrow> Inr v)"
| "getitem _ k = Inl TypeError"

text \<open>\<^verbatim>\<open>d.get(k, default)\<close>: only a dict has the method.\<close>

fun py_get :: "json \<Rightarrow> string \<Rightarrow> json \<Rightarrow> error + json" where
  "py_get (JObj kvs) k dflt = (case map_of kvs k of None \<Rightarrow> Inr dflt | Some v \<Rightarrow> Inr v)"
| "py_get _ k dflt = Inl AttributeError"

text \<open>\<^verbatim>\<open>d[k] = v\<close> with a string key.\<close>

fun setitem :: "json \<Rightarrow> string \<Rightarrow> json \<Rightarrow> error + json" where
  "setitem (JObj kvs) k v = Inr (JObj (AList.update k v kvs))"
| "setitem _ k v = Inl TypeError"

subsection \<open>Files, HTTP and the trace of effects\<close>

text \<open>
  What \<^verbatim>\<open>open(path, 'r')\<close> followed by \<^verbatim>\<open>json.load\<close> finds at a path: no file, a file that is
  not JSON, or a JSON document.
\<close>

datatype file_content = Missing | Unparsable | Parsed json

text \<open>
  An HTTP response as the script reads it: \<^verbatim>\<open>status_code\<close>, \<^verbatim>\<open>text\<close> and the result of
  \<^verbatim>\<open>json()\<close> (\<open>None\<close> when the body is not JSON and the call raises).
\<close>

record 'a response =
  status_code :: int
  resp_text :: string
  resp_json :: "'a option"

text \<open>
  The vendor's data endpoint answers with a JSON array of objects or with a single object
  whose fields are strings and numbers; a dict from field name to cell is one record.
\<close>

datatype cell = CStr string | CNum real

type_synonym row = "(string \<times> cell) list"

datatype payload = Records "row list" | Single row

text \<open>
  A NumPy/Python float of the volatility computation: a finite number (a real, without
  rounding), an infinity or not-a-number.
\<close>

datatype pyfloat = Fin real | PInf | MInf | NaN

text \<open>Every effect the script has on the outside, in the order it happens.\<close>

datatype event =
    HttpPost string json json
  | FileWrite string json
  | HttpGet string "(string \<times> json) list"
  | Print "(string \<times> pyfloat) list"

text \<open>
  The mutable state: \<^verbatim>\<open>self.token\<close> of the one \<^verbatim>\<open>anbima_api\<close> object, the module global
  \<^verbatim>\<open>client_id\<close> (\<open>None\<close> while the name is unbound), the file system and the trace.
\<close>

record state =
  token :: json
  client_id :: "json option"
  files :: "string \<Rightarrow> file_content"
  trace :: "event list"

text \<open>
  What the script reads from outside: the clock at line 42 and at line 62, the token
  endpoint (its answer to the Basic-auth pair) and the data endpoint (its answer to the
  request URL). Both endpoints answer every request: exceptions raised inside
  \<^verbatim>\<open>requests\<close> itself are outside the model.
\<close>

record env =
  now_read :: real
  now_issue :: real
  token_endpoint :: "json \<Rightarrow> json \<Rightarrow> json response"
  data_endpoint :: "string \<Rightarrow> payload response"

section \<open>\<^verbatim>\<open>anbima_api.generate_token\<close>\<close>

text \<open>
  Lines 39 to 43, once \<^verbatim>\<open>credentials\<close> is a dict holding both client keys: the cached
  token when the condition of line 43 holds. A \<^verbatim>\<open>token_info\<close> that is no dict
  (\<^verbatim>\<open>AttributeError\<close>) and an \<^verbatim>\<open>expires_at\<close> that does not compare with a float
  (\<^verbatim>\<open>TypeError\<close>) end in the \<^verbatim>\<open>except\<close> clause, which is the same continuation as a false
  condition.
\<close>

definition cached_token :: "real \<Rightarrow> json \<Rightarrow> json option" where
  "cached_token now credentials =
     (case py_get credentials ''token_info'' (JObj []) of
        Inl e \<Rightarrow> None
      | Inr token_info \<Rightarrow>
          (case py_get token_info ''access_token'' JNull of
             Inl e \<Rightarrow> None
           | Inr access_token \<Rightarrow>
               (case py_get token_info ''expires_at'' JNull of
                  Inl e \<Rightarrow> None
                | Inr expires_at \<Rightarrow>
                    if \<not> truthy access_token then None
                    else if \<not> truthy expires_at then None
                    else (case num_of expires_at of
                            None \<Rightarrow> None
                          | Some e \<Rightarrow> if now < e then Some access_token else None))))"

text \<open>
  The \<^verbatim>\<open>try\<close> block of lines 34 to 47. Its outcome is the token of the early \<^verbatim>\<open>return\<close>, if
  any, and the names it has bound when control leaves it: the locals \<^verbatim>\<open>credentials\<close> and
  \<^verbatim>\<open>client_secret\<close> and the global \<^verbatim>\<open>client_id\<close> (\<open>None\<close>: not assigned by this call).
\<close>

record bindings =
  returned :: "json option"
  credentials :: "json option"
  client_secret :: "json option"
  client_id_set :: "json option"

definition try_block :: "real \<Rightarrow> file_content \<Rightarrow> bindings" where
  "try_block now fc =
     (case fc of
        Missing \<Rightarrow> \<lparr>returned = None, credentials = None, client_secret = None, client_id_set = None\<rparr>
      | Unparsable \<Rightarrow> \<lparr>returned = None, credentials = None, client_secret = None, client_id_set = None\<rparr>
      | Parsed cr \<Rightarrow>
          (case getitem cr ''client_id'' of
             Inl e \<Rightarrow> \<lparr>returned = None, credentials = Some cr, client_secret = None,
                       client_id_set = None\<rparr>
           | Inr cid \<Rightarrow>
               (case getitem cr ''client_secret'' of
                  Inl e \<Rightarrow> \<lparr>returned = None, credentials = Some cr, client_secret = None,
                            client_id_set = Some cid\<rparr>
                | Inr cs \<Rightarrow> \<lparr>returned = cached_token now cr, credentials = Some cr,
                             client_secret = Some cs, client_id_set = Some cid\<rparr>)))"

definition token_url :: string where
  "token_url = ''https://api.anbima.com.br/oauth/access-token''"

text \<open>
  Lines 49 to 67, entered with the bindings the \<^verbatim>\<open>try\<close> block left. The arguments of
  \<^verbatim>\<open>requests.post\<close> are evaluated before the call: an unbound \<^verbatim>\<open>client_id\<close> or
  \<^verbatim>\<open>client_secret\<close> raises and no request is sent.
\<close>

definition fetch_new_token :: "env \<Rightarrow> string \<Rightarrow> bindings \<Rightarrow> state \<Rightarrow> (error + unit) \<times> state" where
  "fetch_new_token ev token_file b s =
     (case client_id s of
        None \<Rightarrow> (Inl (NameError ''client_id''), s)
      | Some cid \<Rightarrow>
          (case client_secret b of
             None \<Rightarrow> (Inl (UnboundLocalError ''client_secret''), s)
           | Some cs \<Rightarrow>
               (let response = token_endpoint ev cid cs;
                    s1 = s\<lparr>trace := trace s @ [HttpPost token_url cid cs]\<rparr>
                in if status_code response = 200 \<or> status_code response = 201 then
                     (case resp_json response of
                        None \<Rightarrow> (Inl JSONDecodeError, s1)
                      | Some data \<Rightarrow>
                          (case py_get data ''access_token'' JNull of
                             Inl e \<Rightarrow> (Inl e, s1)
                           | Inr tok \<Rightarrow>
                               (let s2 = s1\<lparr>token := tok\<rparr> in
                                case py_get data ''expires_in'' (JNum 3600) of
                                  Inl e \<Rightarrow> (Inl e, s2)
                                | Inr expires_in \<Rightarrow>
                                    (case num_of expires_in of
                                       None \<Rightarrow> (Inl TypeError, s2)
                                     | Some e \<Rightarrow>
                                         (case credentials b of
                                            None \<Rightarrow> (Inl (UnboundLocalError ''credentials''), s2)
                                          | Some cr \<Rightarrow>
                                              (case setitem cr ''token_info''
                                                      (JObj [(''access_token'', tok),
                                                             (''expires_at'', JNum (now_issue ev + e - 60))]) of
                                                 Inl err \<Rightarrow> (Inl err, s2)
                                               | Inr cr' \<Rightarrow>
                                                   (Inr (),
                                                    s2\<lparr>files := (files s2)(token_file := Parsed cr'),
                                                       trace := trace s2 @ [FileWrite token_file cr']\<rparr>)))))))
                   else (Inl (TokenRequestFailed (status_code response) (resp_text response)), s1))))"

definition generate_token :: "env \<Rightarrow> string \<Rightarrow> state \<Rightarrow> (error + unit) \<times> state" where
  "generate_token ev token_file s =
     (let b = try_block (now_read ev) (files s token_file);
          s1 = (case client_id_set b of None \<Rightarrow> s | Some cid \<Rightarrow> s\<lparr>client_id := Some cid\<rparr>)
      in case returned b of
           Some access_token \<Rightarrow> (Inr (), s1\<lparr>token := access_token\<rparr>)
         | None \<Rightarrow> fetch_new_token ev token_file b s1)"

section \<open>\<^verbatim>\<open>anbima_api.get_data_by_date\<close>\<close>

text \<open>Lines 72 to 78: the GET request for one date, as it appears in the trace.\<close>

definition data_request :: "json \<Rightarrow> json \<Rightarrow> string \<Rightarrow> string \<Rightarrow> event" where
  "data_request cid tok url date =
     HttpGet (url @ ''?data='' @ date)
       [(''client_id'', cid), (''access_token'', tok), (''Content-Type'', JStr ''application/json'')]"

definition get_data_by_date :: "env \<Rightarrow> string \<Rightarrow> string \<Rightarrow> state \<Rightarrow> (error + payload) \<times> state" where
  "get_data_by_date ev url date s =
     (if \<not> truthy (token s) then (Inl TokenMissing, s)
      else case client_id s of
             None \<Rightarrow> (Inl (NameError ''client_id''), s)
           | Some cid \<Rightarrow>
               (let response = data_endpoint ev (url @ ''?data='' @ date);
                    s1 = s\<lparr>trace := trace s @ [data_request cid (token s) url date]\<rparr>
                in if status_code response = 200 then
                     (case resp_json response of
                        None \<Rightarrow> (Inl JSONDecodeError, s1)
                      | Some data \<Rightarrow> (Inr data, s1))
                   else (Inl (DataRequestFailed (status_code response) (resp_text response)), s1)))"

section \<open>The pandas operations the script uses\<close>

text \<open>
  A \<^verbatim>\<open>DataFrame\<close> built from dicts: its column labels in order of first appearance and its
  rows in index order. A row that lacks a column holds NaN there: \<open>map_of r c = None\<close>.
\<close>

record dataframe =
  columns :: "string list"
  rows :: "row list"

definition add_unique :: "'a list \<Rightarrow> 'a \<Rightarrow> 'a list" where
  "add_unique xs x = (if x \<in> set xs then xs else xs @ [x])"

text \<open>\<^verbatim>\<open>Series.unique()\<close>: the distinct values in order of first appearance, all NaN as one.\<close>

definition unique :: "'a list \<Rightarrow> 'a list" where
  "unique xs = fold (\<lambda>x acc. add_unique acc x) xs []"

text \<open>\<^verbatim>\<open>pd.DataFrame(list_of_dicts)\<close>.\<close>

definition DataFrame :: "row list \<Rightarrow> dataframe" where
  "DataFrame data = \<lparr>columns = unique (concat (map (map fst) data)), rows = data\<rparr>"

text \<open>\<^verbatim>\<open>df[c] = scalar\<close>: the column is created or overwritten in every row.\<close>

definition set_column :: "dataframe \<Rightarrow> string \<Rightarrow> cell \<Rightarrow> dataframe" where
  "set_column df c v =
     \<lparr>columns = add_unique (columns df) c, rows = map (AList.update c v) (rows df)\<rparr>"

text \<open>\<^verbatim>\<open>pd.concat([a, b], ignore_index=True)\<close>: the union of the columns, the rows of \<open>a\<close> then of \<open>b\<close>.\<close>

definition concat_frames :: "dataframe \<Rightarrow> dataframe \<Rightarrow> dataframe" where
  "concat_frames a b =
     \<lparr>columns = fold (\<lambda>c cs. add_unique cs c) (columns b) (columns a), rows = rows a @ rows b\<rparr>"

text \<open>
  What the Python runtime supplies and the model leaves open: \<^verbatim>\<open>float(s)\<close> on a string
  (\<open>None\<close> where it raises \<^verbatim>\<open>ValueError\<close>) and \<^verbatim>\<open>str(x)\<close> on a number.
\<close>

record pyrt =
  float_of_str :: "string \<Rightarrow> pyfloat option"
  str_of_num :: "real \<Rightarrow> string"

text \<open>\<^verbatim>\<open>.astype(float)\<close> on one cell and on a column.\<close>

fun astype_float :: "pyrt \<Rightarrow> cell option \<Rightarrow> error + pyfloat" where
  "astype_float rt None = Inr NaN"
| "astype_float rt (Some (CNum r)) = Inr (Fin r)"
| "astype_float rt (Some (CStr s)) =
     (case float_of_str rt s of None \<Rightarrow> Inl ValueError | Some x \<Rightarrow> Inr x)"

fun astype_float_all :: "pyrt \<Rightarrow> cell option list \<Rightarrow> error + pyfloat list" where
  "astype_float_all rt [] = Inr []"
| "astype_float_all rt (c # cs) =
     (case astype_float rt c of
        Inl e \<Rightarrow> Inl e
      | Inr x \<Rightarrow> (case astype_float_all rt cs of Inl e \<Rightarrow> Inl e | Inr xs \<Rightarrow> Inr (x # xs)))"

text \<open>
  \<^verbatim>\<open>lambda x: np.log(1 + x / 100)\<close>: NumPy answers \<^verbatim>\<open>-inf\<close> at 0 and \<^verbatim>\<open>nan\<close> below it, with a
  warning and no exception.
\<close>

fun log_factor :: "pyfloat \<Rightarrow> pyfloat" where
  "log_factor (Fin r) =
     (if 0 < 1 + r / 100 then Fin (ln (1 + r / 100))
      else if 1 + r / 100 = 0 then MInf else NaN)"
| "log_factor PInf = PInf"
| "log_factor MInf = NaN"
| "log_factor NaN = NaN"

text \<open>IEEE subtraction.\<close>

fun fsub :: "pyfloat \<Rightarrow> pyfloat \<Rightarrow> pyfloat" where
  "fsub NaN y = NaN"
| "fsub x NaN = NaN"
| "fsub (Fin a) (Fin b) = Fin (a - b)"
| "fsub (Fin a) PInf = MInf"
| "fsub (Fin a) MInf = PInf"
| "fsub PInf PInf = NaN"
| "fsub PInf y = PInf"
| "fsub MInf MInf = NaN"
| "fsub MInf y = MInf"

text \<open>\<^verbatim>\<open>Series.diff()\<close>: NaN first, then each value minus the one before it.\<close>

fun diff_from :: "pyfloat \<Rightarrow> pyfloat list \<Rightarrow> pyfloat list" where
  "diff_from prev [] = []"
| "diff_from prev (x # xs) = fsub x prev # diff_from x xs"

definition diff :: "pyfloat list \<Rightarrow> pyfloat list" where
  "diff xs = (case xs of [] \<Rightarrow> [] | x # rest \<Rightarrow> NaN # diff_from x rest)"

fun is_inf :: "pyfloat \<Rightarrow> bool" where
  "is_inf PInf = True"
| "is_inf MInf = True"
| "is_inf x = False"

fun fin_part :: "pyfloat \<Rightarrow> real option" where
  "fin_part (Fin r) = Some r"
| "fin_part x = None"

text \<open>
  \<^verbatim>\<open>Series.std()\<close> with its defaults \<^verbatim>\<open>skipna=True, ddof=1\<close>: NaN entries are dropped; with
  at most one entry left the result is NaN; an infinite entry makes the mean infinite
  and the squared deviations NaN.
\<close>

definition std :: "pyfloat list \<Rightarrow> pyfloat" where
  "std xs =
     (let vs = filter (\<lambda>x. x \<noteq> NaN) xs; n = length vs
      in if n \<le> 1 then NaN
         else if list_ex is_inf vs then NaN
         else (let rs = List.map_filter fin_part vs; avg = sum_list rs / real n
               in Fin (sqrt (sum_list (map (\<lambda>r. (avg - r)\<^sup>2) rs) / real (n - 1)))))"

text \<open>\<^verbatim>\<open>* np.sqrt(252)\<close>.\<close>

fun annualize :: "pyfloat \<Rightarrow> pyfloat" where
  "annualize (Fin s) = Fin (s * sqrt 252)"
| "annualize x = x"

section \<open>\<^verbatim>\<open>volatility\<close>\<close>

text \<open>\<^verbatim>\<open>str(maturity)\<close> for an element of \<^verbatim>\<open>unique()\<close>; a missing maturity is the float NaN.\<close>

fun str_cell :: "pyrt \<Rightarrow> cell option \<Rightarrow> string" where
  "str_cell rt None = ''nan''"
| "str_cell rt (Some (CStr s)) = s"
| "str_cell rt (Some (CNum r)) = str_of_num rt r"

text \<open>\<^verbatim>\<open>df.query("data_vencimento == @maturity")\<close>: NaN equals nothing, itself included.\<close>

definition query_maturity :: "row list \<Rightarrow> cell option \<Rightarrow> row list" where
  "query_maturity rs maturity =
     (case maturity of
        None \<Rightarrow> []
      | Some c \<Rightarrow> filter (\<lambda>r. map_of r ''data_vencimento'' = Some c) rs)"

text \<open>The right-hand side of line 91 for one maturity.\<close>

definition maturity_sigma :: "pyrt \<Rightarrow> dataframe \<Rightarrow> cell option \<Rightarrow> error + pyfloat" where
  "maturity_sigma rt df maturity =
     (if ''taxa_indicativa'' \<notin> set (columns df) then Inl (KeyError ''taxa_indicativa'')
      else case astype_float_all rt
                  (map (\<lambda>r. map_of r ''taxa_indicativa'') (query_maturity (rows df) maturity)) of
             Inl e \<Rightarrow> Inl e
           | Inr xs \<Rightarrow> Inr (annualize (std (diff (map log_factor xs)))))"

text \<open>The loop of lines 90 and 91 over the unique maturities, filling the dict \<^verbatim>\<open>sigma\<close>.\<close>

fun sigma_loop ::
  "pyrt \<Rightarrow> dataframe \<Rightarrow> cell option list \<Rightarrow> (string \<times> pyfloat) list \<Rightarrow> error + (string \<times> pyfloat) list" where
  "sigma_loop rt df [] sigma = Inr sigma"
| "sigma_loop rt df (maturity # ms) sigma =
     (case maturity_sigma rt df maturity of
        Inl e \<Rightarrow> Inl e
      | Inr v \<Rightarrow> sigma_loop rt df ms (AList.update (str_cell rt maturity) v sigma))"

definition volatility :: "pyrt \<Rightarrow> dataframe \<Rightarrow> string \<Rightarrow> error + (string \<times> pyfloat) list" where
  "volatility rt df asset_tp =
     (if ''tipo_titulo'' \<notin> set (columns df) then Inl (KeyError ''tipo_titulo'')
      else (let df1 = df\<lparr>rows := filter (\<lambda>r. map_of r ''tipo_titulo'' = Some (CStr asset_tp)) (rows df)\<rparr>
            in if ''data_vencimento'' \<notin> set (columns df1) then Inl (KeyError ''data_vencimento'')
               else sigma_loop rt df1
                      (unique (map (\<lambda>r. map_of r ''data_vencimento'') (rows df1))) []))"

section \<open>The business-day calendar\<close>

text \<open>
  Modelled from the spec: the \<^verbatim>\<open>bizdays\<close> calendar that \<^verbatim>\<open>Calendar.load("ANBIMA")\<close> returns and
  its methods \<^verbatim>\<open>offset\<close> and \<^verbatim>\<open>seq\<close> are not part of the source. A date is its day number; a
  calendar is its first day and the predicate that tells the business days.
\<close>

record calendar =
  cal_start :: int
  bizday :: "int \<Rightarrow> bool"

text \<open>
  Modelled from the spec: \<^verbatim>\<open>cal.offset(d, -n)\<close>, the date \<open>d\<close> shifted back \<open>n\<close> business days:
  the \<open>n\<close>-th business day before the last business day at or before \<open>d\<close>. There is none
  when the calendar starts too late.
\<close>

function offset_back :: "calendar \<Rightarrow> int \<Rightarrow> nat \<Rightarrow> int option" where
  "offset_back c d n =
     (if d < cal_start c then None
      else if bizday c d then (if n = 0 then Some d else offset_back c (d - 1) (n - 1))
      else offset_back c (d - 1) n)"
  by pat_completeness auto
termination
  by (relation "measure (\<lambda>(c, d, n). nat (d - cal_start c + 1))") auto

declare offset_back.simps [simp del]

text \<open>
  Modelled from the spec: \<^verbatim>\<open>cal.seq(a, b)\<close>, the business days from \<open>a\<close> through \<open>b\<close>,
  inclusive, in ascending order.
\<close>

definition seq :: "calendar \<Rightarrow> int \<Rightarrow> int \<Rightarrow> int list" where
  "seq c a b = filter (bizday c) [a..b]"

section \<open>\<^verbatim>\<open>main\<close>\<close>

text \<open>
  The rest of what a run reads from outside: the calendar, \<^verbatim>\<open>datetime.today()\<close> as a day
  number, \<^verbatim>\<open>strftime('%Y-%m-%d')\<close> on a day number, and the runtime of the float
  conversions.
\<close>

record run =
  cal :: calendar
  today :: int
  strftime :: "int \<Rightarrow> string"
  rt :: pyrt

definition bdays_range :: nat where
  "bdays_range = 10"

definition token_file :: string where
  "token_file = ''anbimaAuth.json''"

definition url_request :: string where
  "url_request =
     ''https://api-sandbox.anbima.com.br/feed/precos-indices/v1/titulos-publicos/mercado-secundario-TPF''"

text \<open>Lines 112 to 115: a list is a list of records, anything else is one record.\<close>

fun records_of :: "payload \<Rightarrow> row list" where
  "records_of (Records rs) = rs"
| "records_of (Single r) = [r]"

text \<open>Lines 112 to 116: the day's frame, every row tagged with the date of the fetch.\<close>

definition day_frame :: "payload \<Rightarrow> string \<Rightarrow> dataframe" where
  "day_frame data datetime_str =
     set_column (DataFrame (records_of data)) ''data_referencia'' (CStr datetime_str)"

text \<open>
  The \<^verbatim>\<open>for\<close> loop of lines 108 to 120. \<^verbatim>\<open>result_df\<close> is \<open>None\<close> until the first iteration
  binds it. An exception of \<^verbatim>\<open>get_data_by_date\<close> is not caught: the loop ends there.
\<close>

fun fetch_dates ::
  "env \<Rightarrow> run \<Rightarrow> int list \<Rightarrow> dataframe option \<Rightarrow> state \<Rightarrow> (error + dataframe option) \<times> state" where
  "fetch_dates ev rn [] result_df s = (Inr result_df, s)"
| "fetch_dates ev rn (date # dates) result_df s =
     (let datetime_str = strftime rn date
      in case get_data_by_date ev url_request datetime_str s of
           (Inl e, s1) \<Rightarrow> (Inl e, s1)
         | (Inr data, s1) \<Rightarrow>
             (let df = day_frame data datetime_str
              in fetch_dates ev rn dates
                   (Some (case result_df of None \<Rightarrow> df | Some acc \<Rightarrow> concat_frames acc df)) s1))"

definition main :: "env \<Rightarrow> run \<Rightarrow> state \<Rightarrow> (error + unit) \<times> state" where
  "main ev rn s0 =
     (case generate_token ev token_file (s0\<lparr>token := JNull\<rparr>) of
        (Inl e, s1) \<Rightarrow> (Inl e, s1)
      | (Inr u, s1) \<Rightarrow>
          (case offset_back (cal rn) (today rn) bdays_range of
             None \<Rightarrow> (Inl CalendarError, s1)
           | Some start \<Rightarrow>
               (case fetch_dates ev rn (seq (cal rn) start (today rn)) None s1 of
                  (Inl e, s2) \<Rightarrow> (Inl e, s2)
                | (Inr None, s2) \<Rightarrow> (Inl (UnboundLocalError ''result_df''), s2)
                | (Inr (Some result_df), s2) \<Rightarrow>
                    (case volatility (rt rn) result_df ''LTN'' of
                       Inl e \<Rightarrow> (Inl e, s2)
                     | Inr result \<Rightarrow> (Inr (), s2\<lparr>trace := trace s2 @ [Print result]\<rparr>)))))"

section \<open>Sample inputs\<close>

text \<open>
  A credential file with both client keys, an environment whose clock reads 1000 and then
  1001 and whose token endpoint gives one fixed answer, and a fresh process: no token,
  the global \<^verbatim>\<open>client_id\<close> unbound, nothing done yet.
\<close>

definition creds_file :: "json \<Rightarrow> json" where
  "creds_file token_info =
     JObj [(''client_id'', JStr ''id''), (''client_secret'', JStr ''pw''), (''token_info'', token_info)]"

definition env0 :: "json response \<Rightarrow> (string \<Rightarrow> payload response) \<Rightarrow> env" where
  "env0 tr de = \<lparr>now_read = 1000, now_issue = 1001, token_endpoint = (\<lambda>cid cs. tr), data_endpoint = de\<rparr>"

definition state0 :: "file_content \<Rightarrow> state" where
  "state0 fc = \<lparr>token = JNull, client_id = None, files = (\<lambda>p. fc), trace = []\<rparr>"

definition no_data :: "string \<Rightarrow> payload response" where
  "no_data u = \<lparr>status_code = 200, resp_text = [], resp_json = Some (Records [])\<rparr>"

definition cached_file :: json where
  "cached_file = creds_file (JObj [(''access_token'', JStr ''abc''), (''expires_at'', JNum 2000)])"

definition expired_file :: json where
  "expired_file = creds_file (JObj [(''access_token'', JStr ''old''), (''expires_at'', JNum 900)])"

definition issued :: "json response" where
  "issued = \<lparr>status_code = 201, resp_text = [],
             resp_json = Some (JObj [(''access_token'', JStr ''new''), (''expires_in'', JNum 600)])\<rparr>"

definition issued_without_token :: "json response" where
  "issued_without_token = \<lparr>status_code = 200, resp_text = [], resp_json = Some (JObj [])\<rparr>"

text \<open>
  A runtime that parses no string, a vendor record, and tables built from such records;
  January 2024 as a calendar whose business days are Monday to Friday (day 1 is a Monday),
  with \<^verbatim>\<open>strftime\<close> on its days; and data endpoints that answer for some days only.
\<close>

definition rt0 :: pyrt where
  "rt0 = \<lparr>float_of_str = (\<lambda>s. None), str_of_num = (\<lambda>r. [])\<rparr>"

definition bond :: "string \<Rightarrow> string \<Rightarrow> real \<Rightarrow> string \<Rightarrow> row" where
  "bond tp maturity rate ref =
     [(''tipo_titulo'', CStr tp), (''data_vencimento'', CStr maturity),
      (''taxa_indicativa'', CNum rate), (''data_referencia'', CStr ref)]"

definition two_rows :: dataframe where
  "two_rows = DataFrame [bond ''LTN'' ''2030-01-01'' 5.0 ''2024-01-02'',
                         bond ''LTN'' ''2030-01-01'' 5.1 ''2024-01-03'']"

definition lone_row :: dataframe where
  "lone_row = DataFrame [bond ''LTN'' ''2030-01-01'' 5.0 ''2024-01-02'',
                         bond ''NTN-B'' ''2035-05-15'' 6.0 ''2024-01-02'']"

definition january :: calendar where
  "january = \<lparr>cal_start = 1, bizday = (\<lambda>d. (d - 1) mod 7 < 5)\<rparr>"

definition iso_day :: "int \<Rightarrow> string" where
  "iso_day d = ''2024-01-'' @ [''0123456789'' ! (nat d div 10), ''0123456789'' ! (nat d mod 10)]"

definition run0 :: "int \<Rightarrow> run" where
  "run0 t = \<lparr>cal = january, today = t, strftime = iso_day, rt = rt0\<rparr>"

definition unavailable :: "payload response" where
  "unavailable = \<lparr>status_code = 503, resp_text = ''Service Unavailable'', resp_json = None\<rparr>"

definition feed :: "int \<Rightarrow> payload" where
  "feed d =
     (if d = 5 then Records [bond ''LTN'' ''2030-01-01'' 5.0 ''vendor'', bond ''NTN-B'' ''2035-05-15'' 6.0 ''vendor'']
      else if d = 8 then Records []
      else Records [bond ''LTN'' ''2030-01-01'' 5.1 ''vendor'', bond ''LTN'' ''2026-07-01'' 4.9 ''vendor'',
                    bond ''NTN-B'' ''2035-05-15'' 6.1 ''vendor''])"

definition three_days :: "string \<Rightarrow> payload response" where
  "three_days u =
     (if u = url_request @ ''?data=2024-01-05'' then \<lparr>status_code = 200, resp_text = [], resp_json = Some (feed 5)\<rparr>
      else if u = url_request @ ''?data=2024-01-08'' then \<lparr>status_code = 200, resp_text = [], resp_json = Some (feed 8)\<rparr>
      else if u = url_request @ ''?data=2024-01-09'' then \<lparr>status_code = 200, resp_text = [], resp_json = Some (feed 9)\<rparr>
      else unavailable)"

definition second_day_down :: "string \<Rightarrow> payload response" where
  "second_day_down u =
     (if u = url_request @ ''?data=2024-01-05'' then \<lparr>status_code = 200, resp_text = [], resp_json = Some (feed 5)\<rparr>
      else unavailable)"

section \<open>Token management\<close>

lemma try_block_cached:
  assumes "map_of cr ''client_id'' = Some cid"
    and "map_of cr ''client_secret'' = Some cs"
  shows "try_block now (Parsed (JObj cr)) =
     \<lparr>returned = cached_token now (JObj cr), credentials = Some (JObj cr),
      client_secret = Some cs, client_id_set = Some cid\<rparr>"
  using assms by (simp add: try_block_def)

lemma generate_token_cached:
  assumes "files s f = Parsed (JObj cr)"
    and "map_of cr ''client_id'' = Some cid"
    and "map_of cr ''client_secret'' = Some cs"
    and "cached_token (now_read ev) (JObj cr) = Some tok"
  shows "generate_token ev f s = (Inr (), s\<lparr>client_id := Some cid, token := tok\<rparr>)"
  using assms(1,4) try_block_cached [OF assms(2,3), of "now_read ev"]
  by (simp add: generate_token_def)

lemma generate_token_fresh:
  assumes "files s f = Parsed (JObj cr)"
    and "map_of cr ''client_id'' = Some cid"
    and "map_of cr ''client_secret'' = Some cs"
    and "cached_token (now_read ev) (JObj cr) = None"
    and "status_code (token_endpoint ev cid cs) = 200 \<or> status_code (token_endpoint ev cid cs) = 201"
    and "resp_json (token_endpoint ev cid cs) = Some (JObj d)"
    and "num_of (case map_of d ''expires_in'' of None \<Rightarrow> JNum 3600 | Some v \<Rightarrow> v) = Some e"
    and "tok = (case map_of d ''access_token'' of None \<Rightarrow> JNull | Some t \<Rightarrow> t)"
    and "cr' = JObj (AList.update ''token_info''
                  (JObj [(''access_token'', tok), (''expires_at'', JNum (now_issue ev + e - 60))]) cr)"
  shows "generate_token ev f s =
           (Inr (), s\<lparr>client_id := Some cid,
                      trace := trace s @ [HttpPost token_url cid cs],
                      token := tok,
                      files := (files s)(f := Parsed cr'),
                      trace := trace s @ [HttpPost token_url cid cs, FileWrite f cr']\<rparr>)"
proof -
  have b: "try_block (now_read ev) (files s f) =
      \<lparr>returned = None, credentials = Some (JObj cr), client_secret = Some cs, client_id_set = Some cid\<rparr>"
    using assms(1,4) try_block_cached [OF assms(2,3), of "now_read ev"] by simp
  have g1: "py_get (JObj d) ''access_token'' JNull = Inr tok"
    using assms(8) by (simp split: option.splits)
  have g2: "py_get (JObj d) ''expires_in'' (JNum 3600) =
      Inr (case map_of d ''expires_in'' of None \<Rightarrow> JNum 3600 | Some v \<Rightarrow> v)"
    by (simp split: option.splits)
  show ?thesis
    unfolding generate_token_def b
    using assms(5,6,7,9) g1 g2
    by (auto simp: fetch_new_token_def Let_def)
qed

text \<open>
  Claim C3. A credential file that holds both client keys and a \<^verbatim>\<open>token_info\<close> with a
  non-empty (truthy) \<^verbatim>\<open>access_token\<close> and a numeric \<^verbatim>\<open>expires_at\<close> later than the clock, the
  clock being at or after the epoch: \<^verbatim>\<open>generate_token\<close> returns normally, \<^verbatim>\<open>self.token\<close> is the
  cached \<^verbatim>\<open>access_token\<close>, and the trace and the files are as before (no network call, no
  file write).
\<close>

theorem generate_token_reuses_cached:
  assumes "files s f = Parsed (JObj cr)"
    and "map_of cr ''client_id'' = Some cid"
    and "map_of cr ''client_secret'' = Some cs"
    and "map_of cr ''token_info'' = Some (JObj ti)"
    and "map_of ti ''access_token'' = Some tok"
    and "truthy tok"
    and "map_of ti ''expires_at'' = Some (JNum e)"
    and "0 \<le> now_read ev"
    and "now_read ev < e"
  shows "case generate_token ev f s of
           (r, s') \<Rightarrow> r = Inr () \<and> token s' = tok \<and> trace s' = trace s \<and> files s' = files s"
proof -
  have "cached_token (now_read ev) (JObj cr) = Some tok"
    using assms(4-9) by (simp add: cached_token_def)
  then show ?thesis
    using generate_token_cached [OF assms(1-3)] by simp
qed

theorem generate_token_reuses_cached_witness:
  "case generate_token (env0 \<lparr>status_code = 500, resp_text = ''down'', resp_json = None\<rparr> no_data)
          token_file (state0 (Parsed cached_file)) of
     (r, s') \<Rightarrow> r = Inr () \<and> token s' = JStr ''abc'' \<and> trace s' = []
        \<and> files s' token_file = Parsed cached_file"
  using generate_token_reuses_cached [where s = "state0 (Parsed cached_file)" and f = token_file
      and ev = "env0 \<lparr>status_code = 500, resp_text = ''down'', resp_json = None\<rparr> no_data"
      and cid = "JStr ''id''" and cs = "JStr ''pw''" and tok = "JStr ''abc''" and e = 2000
      and cr = "[(''client_id'', JStr ''id''), (''client_secret'', JStr ''pw''),
                 (''token_info'', JObj [(''access_token'', JStr ''abc''), (''expires_at'', JNum 2000)])]"
      and ti = "[(''access_token'', JStr ''abc''), (''expires_at'', JNum 2000)]"]
  by (auto simp: state0_def env0_def cached_file_def creds_file_def)

text \<open>
  Claim C4. The credential file holds both client keys and no usable cached token (absent
  or expired: the condition of line 43 fails), and the token endpoint answers 200 or 201
  with a JSON object holding \<^verbatim>\<open>access_token\<close> and an \<^verbatim>\<open>expires_in\<close> that is a number or absent
  (then 3600). \<^verbatim>\<open>generate_token\<close> returns normally, \<^verbatim>\<open>self.token\<close> is the new token, and
  the file is rewritten with \<^verbatim>\<open>token_info = {access_token, expires_at}\<close> where \<^verbatim>\<open>expires_at\<close> is
  the clock at line 62 plus \<^verbatim>\<open>expires_in\<close> minus 60; every other key of the file, \<^verbatim>\<open>client_id\<close>
  and \<^verbatim>\<open>client_secret\<close> among them, keeps its value. The effects are one POST and one write.
\<close>

theorem generate_token_refresh:
  assumes "files s f = Parsed (JObj cr)"
    and "map_of cr ''client_id'' = Some cid"
    and "map_of cr ''client_secret'' = Some cs"
    and "cached_token (now_read ev) (JObj cr) = None"
    and "status_code (token_endpoint ev cid cs) = 200 \<or> status_code (token_endpoint ev cid cs) = 201"
    and "resp_json (token_endpoint ev cid cs) = Some (JObj d)"
    and "map_of d ''access_token'' = Some tok"
    and "num_of (case map_of d ''expires_in'' of None \<Rightarrow> JNum 3600 | Some v \<Rightarrow> v) = Some expires_in"
  shows "case generate_token ev f s of
           (r, s') \<Rightarrow>
             r = Inr () \<and> token s' = tok \<and>
             (\<exists>cr'. files s' f = Parsed (JObj cr') \<and>
                map_of cr' ''token_info'' =
                  Some (JObj [(''access_token'', tok),
                              (''expires_at'', JNum (now_issue ev + expires_in - 60))]) \<and>
                map_of cr' ''client_id'' = Some cid \<and>
                map_of cr' ''client_secret'' = Some cs \<and>
                (\<forall>k. k \<noteq> ''token_info'' \<longrightarrow> map_of cr' k = map_of cr k) \<and>
                trace s' = trace s @ [HttpPost token_url cid cs, FileWrite f (JObj cr')])"
proof -
  have "generate_token ev f s =
           (Inr (), s\<lparr>client_id := Some cid,
                      trace := trace s @ [HttpPost token_url cid cs],
                      token := tok,
                      files := (files s)(f := Parsed (JObj (AList.update ''token_info''
                  (JObj [(''access_token'', tok), (''expires_at'', JNum (now_issue ev + expires_in - 60))]) cr))),
                      trace := trace s @ [HttpPost token_url cid cs, FileWrite f (JObj (AList.update ''token_info''
                  (JObj [(''access_token'', tok), (''expires_at'', JNum (now_issue ev + expires_in - 60))]) cr))]\<rparr>)"
    using assms(7) by (intro generate_token_fresh [OF assms(1-6) assms(8)]) simp_all
  then show ?thesis
    using assms(2,3) by (simp add: update_conv')
qed

theorem generate_token_refresh_witness:
  "case generate_token (env0 issued no_data) token_file (state0 (Parsed expired_file)) of
     (r, s') \<Rightarrow>
        r = Inr () \<and> token s' = JStr ''new'' \<and>
        (\<exists>cr'. files s' token_file = Parsed (JObj cr') \<and>
           map_of cr' ''token_info'' =
             Some (JObj [(''access_token'', JStr ''new''), (''expires_at'', JNum 1541)]) \<and>
           map_of cr' ''client_id'' = Some (JStr ''id'') \<and>
           map_of cr' ''client_secret'' = Some (JStr ''pw'') \<and>
           trace s' = [HttpPost token_url (JStr ''id'') (JStr ''pw''), FileWrite token_file (JObj cr')])"
  using generate_token_refresh [where s = "state0 (Parsed expired_file)" and f = token_file
      and ev = "env0 issued no_data" and cid = "JStr ''id''" and cs = "JStr ''pw''"
      and tok = "JStr ''new''" and expires_in = 600
      and cr = "[(''client_id'', JStr ''id''), (''client_secret'', JStr ''pw''),
                 (''token_info'', JObj [(''access_token'', JStr ''old''), (''expires_at'', JNum 900)])]"
      and d = "[(''access_token'', JStr ''new''), (''expires_in'', JNum 600)]"]
  by (auto simp: state0_def env0_def expired_file_def creds_file_def issued_def cached_token_def)

text \<open>
  Claim C10. As for C4, but the answer of the token endpoint has no \<^verbatim>\<open>access_token\<close> key:
  \<^verbatim>\<open>generate_token\<close> still returns normally, \<^verbatim>\<open>self.token\<close> is \<^verbatim>\<open>None\<close>, the file is rewritten
  with a null \<^verbatim>\<open>access_token\<close>, and any later \<^verbatim>\<open>get_data_by_date\<close> raises the missing-token
  exception of line 71 without sending a request.
\<close>

theorem generate_token_null_token:
  assumes "files s f = Parsed (JObj cr)"
    and "map_of cr ''client_id'' = Some cid"
    and "map_of cr ''client_secret'' = Some cs"
    and "cached_token (now_read ev) (JObj cr) = None"
    and "status_code (token_endpoint ev cid cs) = 200 \<or> status_code (token_endpoint ev cid cs) = 201"
    and "resp_json (token_endpoint ev cid cs) = Some (JObj d)"
    and "map_of d ''access_token'' = None"
    and "num_of (case map_of d ''expires_in'' of None \<Rightarrow> JNum 3600 | Some v \<Rightarrow> v) = Some expires_in"
  shows "case generate_token ev f s of
           (r, s') \<Rightarrow>
             r = Inr () \<and> token s' = JNull \<and>
             (\<exists>cr'. files s' f = Parsed (JObj cr') \<and>
                map_of cr' ''token_info'' =
                  Some (JObj [(''access_token'', JNull),
                              (''expires_at'', JNum (now_issue ev + expires_in - 60))])) \<and>
             get_data_by_date ev' url date s' = (Inl TokenMissing, s')"
proof -
  have "generate_token ev f s =
           (Inr (), s\<lparr>client_id := Some cid,
                      trace := trace s @ [HttpPost token_url cid cs],
                      token := JNull,
                      files := (files s)(f := Parsed (JObj (AList.update ''token_info''
                  (JObj [(''access_token'', JNull), (''expires_at'', JNum (now_issue ev + expires_in - 60))]) cr))),
                      trace := trace s @ [HttpPost token_url cid cs, FileWrite f (JObj (AList.update ''token_info''
                  (JObj [(''access_token'', JNull), (''expires_at'', JNum (now_issue ev + expires_in - 60))]) cr))]\<rparr>)"
    using assms(7) by (intro generate_token_fresh [OF assms(1-6) assms(8)]) simp_all
  then show ?thesis
    by (simp add: update_conv' get_data_by_date_def)
qed

theorem generate_token_null_token_witness:
  "case generate_token (env0 issued_without_token no_data) token_file (state0 (Parsed expired_file)) of
     (r, s') \<Rightarrow>
        r = Inr () \<and> token s' = JNull \<and>
        (\<exists>cr'. files s' token_file = Parsed (JObj cr') \<and>
           map_of cr' ''token_info'' =
             Some (JObj [(''access_token'', JNull), (''expires_at'', JNum 4541)])) \<and>
        get_data_by_date (env0 issued_without_token no_data) url_request ''2024-01-02'' s'
          = (Inl TokenMissing, s')"
  using generate_token_null_token [where s = "state0 (Parsed expired_file)" and f = token_file
      and ev = "env0 issued_without_token no_data" and cid = "JStr ''id''" and cs = "JStr ''pw''"
      and expires_in = 3600 and d = "[]" and ev' = "env0 issued_without_token no_data"
      and url = url_request and date = "''2024-01-02''"
      and cr = "[(''client_id'', JStr ''id''), (''client_secret'', JStr ''pw''),
                 (''token_info'', JObj [(''access_token'', JStr ''old''), (''expires_at'', JNum 900)])]"]
  by (auto simp: state0_def env0_def expired_file_def creds_file_def issued_without_token_def
        cached_token_def)

text \<open>
  Claim C2, on the code. With the credential file missing or not JSON, the \<^verbatim>\<open>except\<close>
  clause swallows the read error, but line 54 then reads \<^verbatim>\<open>client_id\<close> and
  \<^verbatim>\<open>client_secret\<close>, which only a successful read binds: whatever the token endpoint would
  answer, the call ends with \<^verbatim>\<open>NameError\<close> in a fresh process, and with
  \<^verbatim>\<open>UnboundLocalError\<close> after an earlier successful call, before any request is sent: the
  state, its trace included, is unchanged.
\<close>

theorem generate_token_without_file:
  assumes "files s f = Missing \<or> files s f = Unparsable"
  shows "generate_token ev f s =
           (Inl (case client_id s of
                   None \<Rightarrow> NameError ''client_id''
                 | Some cid \<Rightarrow> UnboundLocalError ''client_secret''), s)"
  using assms
  by (auto simp: generate_token_def try_block_def fetch_new_token_def split: option.splits)

theorem generate_token_without_file_witness:
  "generate_token (env0 issued no_data) token_file (state0 Missing)
     = (Inl (NameError ''client_id''), state0 Missing)
   \<and> generate_token (env0 issued no_data) token_file ((state0 Unparsable)\<lparr>client_id := Some (JStr ''id'')\<rparr>)
     = (Inl (UnboundLocalError ''client_secret''), (state0 Unparsable)\<lparr>client_id := Some (JStr ''id'')\<rparr>)"
  using generate_token_without_file [of "state0 Missing" token_file "env0 issued no_data"]
    generate_token_without_file [of "(state0 Unparsable)\<lparr>client_id := Some (JStr ''id'')\<rparr>"
      token_file "env0 issued no_data"]
  by (simp add: state0_def)


lemma generate_token_binds_client_id:
  "generate_token ev f s = (Inr u, s') \<Longrightarrow> client_id s' \<noteq> None"
  by (auto simp: generate_token_def fetch_new_token_def try_block_def Let_def
      split: option.splits if_splits sum.splits file_content.splits)

section \<open>Volatility\<close>

lemma unique_two: "unique [x, x] = [x]"
  by (simp add: unique_def add_unique_def)

lemma set_fold_add_unique: "set (fold (\<lambda>x acc. add_unique acc x) xs acc) = set xs \<union> set acc"
  by (induction xs arbitrary: acc) (auto simp: add_unique_def)

lemma set_unique: "set (unique xs) = set xs"
  by (simp add: unique_def set_fold_add_unique)

lemma std_short: "length xs \<le> 1 \<Longrightarrow> std xs = NaN"
proof -
  assume "length xs \<le> 1"
  then have "length (filter (\<lambda>x. x \<noteq> NaN) xs) \<le> 1"
    using length_filter_le [of "\<lambda>x. x \<noteq> NaN" xs] by linarith
  then show ?thesis by (simp add: std_def Let_def)
qed

lemma std_diff_pair: "std (diff [x, y]) = NaN"
  by (simp add: std_def diff_def Let_def)

lemma astype_float_all_length: "astype_float_all py cs = Inr xs \<Longrightarrow> length xs = length cs"
  by (induction cs arbitrary: xs) (auto split: sum.splits)

lemma astype_float_all_total:
  "\<forall>c\<in>set cs. \<exists>x. astype_float py c = Inr x \<Longrightarrow> \<exists>xs. astype_float_all py cs = Inr xs"
  by (induction cs) (auto split: sum.splits)

lemma length_diff: "length (diff xs) = length xs"
proof -
  have "length (diff_from p ys) = length ys" for p ys
    by (induction ys arbitrary: p) auto
  then show ?thesis by (simp add: diff_def split: list.splits)
qed

lemma maturity_sigma_short:
  assumes "maturity_sigma py df m = Inr v" and "length (query_maturity (rows df) m) \<le> 1"
  shows "v = NaN"
proof -
  from assms(1) obtain xs where
    xs: "astype_float_all py (map (\<lambda>r. map_of r ''taxa_indicativa'') (query_maturity (rows df) m)) = Inr xs"
    and v: "v = annualize (std (diff (map log_factor xs)))"
    by (auto simp: maturity_sigma_def split: if_splits sum.splits)
  from astype_float_all_length [OF xs] assms(2) have "length (diff (map log_factor xs)) \<le> 1"
    by (simp add: length_diff)
  then show ?thesis
    using v by (simp add: std_short)
qed

lemma maturity_sigma_total:
  assumes "''taxa_indicativa'' \<in> set (columns df)"
    and "\<forall>r\<in>set (rows df). \<exists>x. astype_float py (map_of r ''taxa_indicativa'') = Inr x"
  shows "\<exists>v. maturity_sigma py df m = Inr v"
proof -
  have "set (query_maturity (rows df) m) \<subseteq> set (rows df)"
    by (auto simp: query_maturity_def split: option.splits)
  with assms(2) have "\<forall>c\<in>set (map (\<lambda>r. map_of r ''taxa_indicativa'') (query_maturity (rows df) m)).
      \<exists>x. astype_float py c = Inr x"
    by auto
  from astype_float_all_total [OF this] show ?thesis
    using assms(1) by (auto simp: maturity_sigma_def)
qed

lemma sigma_loop_total:
  "\<forall>m\<in>set ms. \<exists>v. maturity_sigma py df m = Inr v \<Longrightarrow> \<exists>sigma'. sigma_loop py df ms sigma = Inr sigma'"
  by (induction ms arbitrary: sigma) (auto split: sum.splits)

lemma sigma_loop_nan:
  assumes "sigma_loop py df ms sigma = Inr sigma'"
    and "\<forall>m\<in>set ms. str_cell py m = k \<longrightarrow> maturity_sigma py df m = Inr NaN"
    and "(\<exists>m\<in>set ms. str_cell py m = k) \<or> map_of sigma k = Some NaN"
  shows "map_of sigma' k = Some NaN"
  using assms
proof (induction ms arbitrary: sigma)
  case Nil
  then show ?case by simp
next
  case (Cons m ms)
  from Cons.prems(1) obtain v where v: "maturity_sigma py df m = Inr v"
    and rest: "sigma_loop py df ms (AList.update (str_cell py m) v sigma) = Inr sigma'"
    by (auto split: sum.splits)
  have "(\<exists>m'\<in>set ms. str_cell py m' = k) \<or> map_of (AList.update (str_cell py m) v sigma) k = Some NaN"
    using Cons.prems(2,3) v by (auto simp: update_conv')
  with Cons.IH [OF rest] Cons.prems(2) show ?case by simp
qed

text \<open>
  Claim C1, as the code has it. A table with the three columns and exactly two rows, both of
  instrument type \<open>T\<close> and maturity \<open>M\<close>, with indicative rates 5.0 and 5.1:
  \<^verbatim>\<open>volatility\<close> returns the mapping with the one key \<open>M\<close>, and its value is NaN. The
  differenced series is \<^verbatim>\<open>[NaN, ln 1.051 - ln 1.05]\<close>; \<^verbatim>\<open>std\<close> drops the NaN and is left with
  one value, whose standard deviation with the \<open>N - 1\<close> denominator is undefined.
\<close>

theorem volatility_two_rows:
  assumes "{''tipo_titulo'', ''data_vencimento'', ''taxa_indicativa''} \<subseteq> set (columns df)"
    and "rows df = [r1, r2]"
    and "map_of r1 ''tipo_titulo'' = Some (CStr T)" and "map_of r2 ''tipo_titulo'' = Some (CStr T)"
    and "map_of r1 ''data_vencimento'' = Some (CStr M)" and "map_of r2 ''data_vencimento'' = Some (CStr M)"
    and "map_of r1 ''taxa_indicativa'' = Some (CNum 5.0)" and "map_of r2 ''taxa_indicativa'' = Some (CNum 5.1)"
  shows "volatility py df T = Inr [(M, NaN)]"
  using assms
  by (simp add: volatility_def unique_two maturity_sigma_def query_maturity_def std_diff_pair)

theorem volatility_two_rows_witness:
  "volatility rt0 two_rows ''LTN'' = Inr [(''2030-01-01'', NaN)]"
  using volatility_two_rows [where df = two_rows and T = "''LTN''" and M = "''2030-01-01''" and py = rt0
     and ?r1.0 = "bond ''LTN'' ''2030-01-01'' 5.0 ''2024-01-02''"
     and ?r2.0 = "bond ''LTN'' ''2030-01-01'' 5.1 ''2024-01-03''"]
  by (simp add: two_rows_def DataFrame_def bond_def unique_def add_unique_def)

text \<open>
  Claim C1 as stated fails on that table: the value stored for the maturity is not
  \<open>\<bar>ln 1.051 - ln 1.05\<bar> * sqrt 252\<close>.
\<close>

theorem volatility_two_rows_counterexample:
  "volatility rt0 two_rows ''LTN'' = Inr [(''2030-01-01'', NaN)]
   \<and> map_of [(''2030-01-01'', NaN)] ''2030-01-01'' \<noteq> Some (Fin (\<bar>ln 1.051 - ln 1.05\<bar> * sqrt 252))"
  by (simp add: volatility_def unique_def add_unique_def maturity_sigma_def query_maturity_def
      std_diff_pair two_rows_def DataFrame_def bond_def)

text \<open>
  Claim C5. The table has the three columns and every rate of a matching row converts to
  a float. Take a key \<open>k\<close> of the result, the string of a maturity that occurs among the
  rows of the requested type, such that every maturity stored under \<open>k\<close> has fewer than 2
  of those rows. Then \<^verbatim>\<open>volatility\<close> returns a mapping (no exception), and the value it
  holds at \<open>k\<close> is NaN: not a number, zero included.
\<close>

theorem volatility_short_group:
  assumes cols: "{''tipo_titulo'', ''data_vencimento'', ''taxa_indicativa''} \<subseteq> set (columns df)"
    and conv: "\<forall>r\<in>set (rows df). map_of r ''tipo_titulo'' = Some (CStr tp) \<longrightarrow>
                 (\<exists>x. astype_float py (map_of r ''taxa_indicativa'') = Inr x)"
    and occurs: "\<exists>r\<in>set (rows df). map_of r ''tipo_titulo'' = Some (CStr tp)
                   \<and> str_cell py (map_of r ''data_vencimento'') = k"
    and short: "\<forall>r\<in>set (rows df). map_of r ''tipo_titulo'' = Some (CStr tp)
                   \<and> str_cell py (map_of r ''data_vencimento'') = k \<longrightarrow>
                 length (filter (\<lambda>r'. map_of r' ''tipo_titulo'' = Some (CStr tp)
                   \<and> map_of r' ''data_vencimento'' = map_of r ''data_vencimento'') (rows df)) < 2"
  shows "\<exists>sigma. volatility py df tp = Inr sigma \<and> map_of sigma k = Some NaN"
proof -
  define df1 where "df1 = df\<lparr>rows := filter (\<lambda>r. map_of r ''tipo_titulo'' = Some (CStr tp)) (rows df)\<rparr>"
  define ms where "ms = unique (map (\<lambda>r. map_of r ''data_vencimento'') (rows df1))"
  have vol: "volatility py df tp = sigma_loop py df1 ms []"
    using cols by (simp add: volatility_def df1_def ms_def Let_def)
  have "\<forall>r\<in>set (rows df1). \<exists>x. astype_float py (map_of r ''taxa_indicativa'') = Inr x"
    using conv by (simp add: df1_def)
  moreover have "''taxa_indicativa'' \<in> set (columns df1)"
    using cols by (simp add: df1_def)
  ultimately have tot: "\<exists>v. maturity_sigma py df1 m = Inr v" for m
    by (rule maturity_sigma_total [rotated])
  then obtain sigma where sigma: "sigma_loop py df1 ms [] = Inr sigma"
    using sigma_loop_total [of ms py df1 "[]"] by blast
  have nan: "maturity_sigma py df1 m = Inr NaN" if m: "m \<in> set ms" and k: "str_cell py m = k" for m
  proof -
    from tot obtain v where v: "maturity_sigma py df1 m = Inr v" by blast
    from m obtain r where r: "r \<in> set (rows df)" "map_of r ''tipo_titulo'' = Some (CStr tp)"
      "map_of r ''data_vencimento'' = m"
      by (auto simp: ms_def set_unique df1_def)
    have "length (query_maturity (rows df1) m) \<le> 1"
    proof (cases m)
      case None
      then show ?thesis by (simp add: query_maturity_def)
    next
      case (Some c)
      have "query_maturity (rows df1) m =
          filter (\<lambda>r'. map_of r' ''tipo_titulo'' = Some (CStr tp)
                   \<and> map_of r' ''data_vencimento'' = map_of r ''data_vencimento'') (rows df)"
        using Some r(3) by (simp add: query_maturity_def df1_def conj_commute)
      with short r k show ?thesis by fastforce
    qed
    from maturity_sigma_short [OF v this] v show ?thesis by simp
  qed
  have "\<exists>m\<in>set ms. str_cell py m = k"
    using occurs by (force simp: ms_def set_unique df1_def)
  with sigma_loop_nan [OF sigma, of k] nan have "map_of sigma k = Some NaN"
    by blast
  with vol sigma show ?thesis by simp
qed

theorem volatility_short_group_witness:
  "\<exists>sigma. volatility rt0 lone_row ''LTN'' = Inr sigma \<and> map_of sigma ''2030-01-01'' = Some NaN"
  using volatility_short_group [where df = lone_row and tp = "''LTN''" and k = "''2030-01-01''" and py = rt0]
  by (simp add: lone_row_def DataFrame_def bond_def unique_def add_unique_def)

text \<open>
  Claim C9, as the code has it. On a table that has the columns \<^verbatim>\<open>tipo_titulo\<close> and
  \<^verbatim>\<open>data_vencimento\<close> and no row of the requested type, \<^verbatim>\<open>volatility\<close> returns the empty
  mapping.
\<close>

theorem volatility_no_match:
  assumes "''tipo_titulo'' \<in> set (columns df)"
    and "''data_vencimento'' \<in> set (columns df)"
    and "\<forall>r\<in>set (rows df). map_of r ''tipo_titulo'' \<noteq> Some (CStr tp)"
  shows "volatility py df tp = Inr []"
proof -
  have "filter (\<lambda>r. map_of r ''tipo_titulo'' = Some (CStr tp)) (rows df) = []"
    using assms(3) by (simp add: filter_empty_conv)
  then show ?thesis
    using assms(1,2) by (simp add: volatility_def unique_def)
qed

theorem volatility_no_match_witness:
  "volatility rt0 lone_row ''NTN-F'' = Inr []"
  using volatility_no_match [where df = lone_row and tp = "''NTN-F''" and py = rt0]
  by (simp add: lone_row_def DataFrame_def bond_def unique_def add_unique_def)

text \<open>
  Claim C9 as stated fails on the table without an instrument-type column, such as the
  frame of a day for which the vendor returned no record: it has no row at all, and line
  88 raises \<^verbatim>\<open>KeyError\<close>.
\<close>

theorem volatility_no_match_counterexample:
  "rows (day_frame (Records []) ''2024-01-02'') = []
   \<and> volatility rt0 (day_frame (Records []) ''2024-01-02'') ''LTN'' = Inl (KeyError ''tipo_titulo'')"
  by (simp add: day_frame_def DataFrame_def set_column_def unique_def add_unique_def volatility_def)

section \<open>The business days fetched\<close>

lemma offset_back_le: "offset_back c d n = Some r \<Longrightarrow> r \<le> d"
proof (induction c d n rule: offset_back.induct)
  case (1 c d n)
  then show ?case
    by (subst (asm) (2) offset_back.simps) (fastforce split: if_splits)
qed

lemma sorted_seq: "sorted_wrt (<) (seq c a b)"
  by (simp add: seq_def sorted_wrt_filter)

text \<open>
  Claim C6, as amended. The sequence \<^verbatim>\<open>cal.seq(cal.offset(today, -bdays_range), today)\<close> of line
  108 is strictly ascending, has no duplicate, and, when today is a business day, is not
  empty and ends with today.
\<close>

theorem business_days_ascending:
  assumes "offset_back c t bdays_range = Some start"
  shows "sorted_wrt (<) (seq c start t) \<and> distinct (seq c start t)
         \<and> (bizday c t \<longrightarrow> seq c start t \<noteq> [] \<and> last (seq c start t) = t)"
proof -
  have le: "start \<le> t" using assms by (rule offset_back_le)
  then have up: "[start..t] = [start..t - 1] @ [t]"
    by (simp add: upto_rec2)
  have "bizday c t \<Longrightarrow> seq c start t \<noteq> [] \<and> last (seq c start t) = t"
    by (simp add: seq_def up)
  moreover have "distinct (seq c start t)"
    by (simp add: seq_def)
  ultimately show ?thesis
    using sorted_seq by blast
qed

theorem business_days_ascending_witness:
  "offset_back january 19 bdays_range = Some 5
   \<and> seq january 5 19 = [5, 8, 9, 10, 11, 12, 15, 16, 17, 18, 19]
   \<and> sorted_wrt (<) (seq january 5 19) \<and> distinct (seq january 5 19)
   \<and> bizday january 19 \<and> last (seq january 5 19) = 19"
proof -
  have o: "offset_back january 19 bdays_range = Some 5"
    by (simp add: offset_back.simps bdays_range_def january_def)
  have s: "seq january 5 19 = [5, 8, 9, 10, 11, 12, 15, 16, 17, 18, 19]"
    by (simp add: seq_def january_def upto_rec1)
  have b: "bizday january 19" by (simp add: january_def)
  show ?thesis
    using business_days_ascending [OF o] o s b by simp
qed

text \<open>
  Claim C6 as stated fails when today is no business day: on Sunday 21 January the
  sequence ends with Friday 19.
\<close>

theorem business_days_counterexample:
  "offset_back january 21 bdays_range = Some 5
   \<and> seq january 5 21 = [5, 8, 9, 10, 11, 12, 15, 16, 17, 18, 19]
   \<and> last (seq january 5 21) \<noteq> 21"
proof -
  have o: "offset_back january 21 bdays_range = Some 5"
    by (simp add: offset_back.simps bdays_range_def january_def)
  have s: "seq january 5 21 = [5, 8, 9, 10, 11, 12, 15, 16, 17, 18, 19]"
    by (simp add: seq_def january_def upto_rec1)
  show ?thesis
    using o s by simp
qed

section \<open>The fetch loop\<close>

lemma get_data_by_date_ok:
  assumes "truthy (token s)" and "client_id s = Some cid"
    and "status_code (data_endpoint ev (url @ ''?data='' @ date)) = 200"
    and "resp_json (data_endpoint ev (url @ ''?data='' @ date)) = Some data"
  shows "get_data_by_date ev url date s =
           (Inr data, s\<lparr>trace := trace s @ [data_request cid (token s) url date]\<rparr>)"
  using assms by (simp add: get_data_by_date_def)

lemma get_data_by_date_failed:
  assumes "truthy (token s)" and "client_id s = Some cid"
    and "status_code (data_endpoint ev (url @ ''?data='' @ date)) \<noteq> 200"
  shows "get_data_by_date ev url date s =
           (Inl (DataRequestFailed (status_code (data_endpoint ev (url @ ''?data='' @ date)))
                                   (resp_text (data_endpoint ev (url @ ''?data='' @ date)))),
            s\<lparr>trace := trace s @ [data_request cid (token s) url date]\<rparr>)"
  using assms by (simp add: get_data_by_date_def Let_def)

text \<open>
  A loop whose fetches all succeed: its requests, one per date in order, and the rows it
  has gathered.
\<close>

lemma fetch_dates_ok:
  assumes "truthy (token s)" and "client_id s = Some cid"
    and "\<forall>d\<in>set dates.
           status_code (data_endpoint ev (url_request @ ''?data='' @ strftime rn d)) = 200 \<and>
           resp_json (data_endpoint ev (url_request @ ''?data='' @ strftime rn d)) = Some (data d)"
  shows "\<exists>res. fetch_dates ev rn dates acc s =
           (Inr res, s\<lparr>trace := trace s @
               map (\<lambda>d. data_request cid (token s) url_request (strftime rn d)) dates\<rparr>) \<and>
           (dates = [] \<longrightarrow> res = acc) \<and>
           (dates \<noteq> [] \<longrightarrow> res \<noteq> None) \<and>
           (case res of None \<Rightarrow> [] | Some df \<Rightarrow> rows df) =
             (case acc of None \<Rightarrow> [] | Some df \<Rightarrow> rows df) @
             concat (map (\<lambda>d. map (AList.update ''data_referencia'' (CStr (strftime rn d)))
                                (records_of (data d))) dates)"
  using assms
proof (induction dates arbitrary: acc s)
  case Nil
  then show ?case by simp
next
  case (Cons d dates)
  let ?s1 = "s\<lparr>trace := trace s @ [data_request cid (token s) url_request (strftime rn d)]\<rparr>"
  let ?df = "day_frame (data d) (strftime rn d)"
  let ?acc = "Some (case acc of None \<Rightarrow> ?df | Some a \<Rightarrow> concat_frames a ?df)"
  have g: "get_data_by_date ev url_request (strftime rn d) s = (Inr (data d), ?s1)"
    using Cons.prems by (intro get_data_by_date_ok) simp_all
  have "truthy (token ?s1)" "client_id ?s1 = Some cid"
    using Cons.prems(1,2) by simp_all
  from Cons.IH [OF this, of ?acc] Cons.prems(3)
  obtain res where
    r: "fetch_dates ev rn dates ?acc ?s1 =
          (Inr res, ?s1\<lparr>trace := trace ?s1 @
              map (\<lambda>d. data_request cid (token ?s1) url_request (strftime rn d)) dates\<rparr>)"
    and n: "dates = [] \<longrightarrow> res = ?acc" "dates \<noteq> [] \<longrightarrow> res \<noteq> None"
    and rw: "(case res of None \<Rightarrow> [] | Some df \<Rightarrow> rows df) =
             (case ?acc of None \<Rightarrow> [] | Some df \<Rightarrow> rows df) @
             concat (map (\<lambda>d. map (AList.update ''data_referencia'' (CStr (strftime rn d)))
                                (records_of (data d))) dates)"
    by auto
  have f: "fetch_dates ev rn (d # dates) acc s = fetch_dates ev rn dates ?acc ?s1"
    using g by (simp add: Let_def)
  have a: "(case ?acc of None \<Rightarrow> [] | Some df \<Rightarrow> rows df) =
      (case acc of None \<Rightarrow> [] | Some df \<Rightarrow> rows df) @
      map (AList.update ''data_referencia'' (CStr (strftime rn d))) (records_of (data d))"
    by (simp add: day_frame_def set_column_def DataFrame_def concat_frames_def split: option.splits)
  show ?case
    unfolding f using r n rw a by (cases "dates = []") auto
qed

text \<open>A loop whose fetch fails at \<open>date\<close>, after the dates \<open>pre\<close> and before the dates \<open>post\<close>.\<close>

lemma fetch_dates_failed:
  assumes "truthy (token s)" and "client_id s = Some cid"
    and "\<forall>d\<in>set pre.
           status_code (data_endpoint ev (url_request @ ''?data='' @ strftime rn d)) = 200 \<and>
           resp_json (data_endpoint ev (url_request @ ''?data='' @ strftime rn d)) \<noteq> None"
    and "status_code (data_endpoint ev (url_request @ ''?data='' @ strftime rn date)) \<noteq> 200"
  shows "fetch_dates ev rn (pre @ date # post) acc s =
           (Inl (DataRequestFailed
                   (status_code (data_endpoint ev (url_request @ ''?data='' @ strftime rn date)))
                   (resp_text (data_endpoint ev (url_request @ ''?data='' @ strftime rn date)))),
            s\<lparr>trace := trace s @
               map (\<lambda>d. data_request cid (token s) url_request (strftime rn d)) (pre @ [date])\<rparr>)"
  using assms
proof (induction pre arbitrary: acc s)
  case Nil
  then show ?case
    using get_data_by_date_failed [of s cid ev url_request "strftime rn date"]
    by (simp add: Let_def)
next
  case (Cons d pre)
  let ?s1 = "s\<lparr>trace := trace s @ [data_request cid (token s) url_request (strftime rn d)]\<rparr>"
  from Cons.prems(3) obtain data where
    "resp_json (data_endpoint ev (url_request @ ''?data='' @ strftime rn d)) = Some data"
    by auto
  then have g: "get_data_by_date ev url_request (strftime rn d) s = (Inr data, ?s1)"
    using Cons.prems by (intro get_data_by_date_ok) simp_all
  have "truthy (token ?s1)" "client_id ?s1 = Some cid"
    using Cons.prems(1,2) by simp_all
  from Cons.IH [OF this _ Cons.prems(4)] Cons.prems(3) g
  show ?case by (simp add: Let_def)
qed

text \<open>
  Claim C7. The token is generated and truthy, and the data endpoint answers the dates
  \<open>pre\<close> with status 200 and a JSON body and the next date with another status.
  \<^verbatim>\<open>get_data_by_date\<close> raises for that date, the exception carrying the status code and the
  response text; \<^verbatim>\<open>main\<close> ends with that exception; and after the token generation the run
  has sent exactly one request for each date of \<open>pre\<close> and one for the failing date: none
  twice, none for a later date, and nothing is printed.
\<close>

theorem fetch_failure_aborts_run:
  assumes "generate_token ev token_file (s0\<lparr>token := JNull\<rparr>) = (Inr (), s1)"
    and "truthy (token s1)"
    and "offset_back (cal rn) (today rn) bdays_range = Some start"
    and "seq (cal rn) start (today rn) = pre @ date # post"
    and "\<forall>d\<in>set pre.
           status_code (data_endpoint ev (url_request @ ''?data='' @ strftime rn d)) = 200 \<and>
           resp_json (data_endpoint ev (url_request @ ''?data='' @ strftime rn d)) \<noteq> None"
    and "status_code (data_endpoint ev (url_request @ ''?data='' @ strftime rn date)) \<noteq> 200"
  shows "\<exists>cid. client_id s1 = Some cid \<and>
           fst (get_data_by_date ev url_request (strftime rn date) s1) =
             Inl (DataRequestFailed
                   (status_code (data_endpoint ev (url_request @ ''?data='' @ strftime rn date)))
                   (resp_text (data_endpoint ev (url_request @ ''?data='' @ strftime rn date)))) \<and>
           main ev rn s0 =
             (Inl (DataRequestFailed
                   (status_code (data_endpoint ev (url_request @ ''?data='' @ strftime rn date)))
                   (resp_text (data_endpoint ev (url_request @ ''?data='' @ strftime rn date)))),
              s1\<lparr>trace := trace s1 @
                 map (\<lambda>d. data_request cid (token s1) url_request (strftime rn d)) (pre @ [date])\<rparr>)"
proof -
  from generate_token_binds_client_id [OF assms(1)] obtain cid where cid: "client_id s1 = Some cid"
    by auto
  have "main ev rn s0 =
      (case fetch_dates ev rn (pre @ date # post) None s1 of
         (Inl e, s2) \<Rightarrow> (Inl e, s2)
       | (Inr None, s2) \<Rightarrow> (Inl (UnboundLocalError ''result_df''), s2)
       | (Inr (Some result_df), s2) \<Rightarrow>
           (case volatility (rt rn) result_df ''LTN'' of
              Inl e \<Rightarrow> (Inl e, s2)
            | Inr result \<Rightarrow> (Inr (), s2\<lparr>trace := trace s2 @ [Print result]\<rparr>)))"
    using assms(1,3,4) by (simp add: main_def)
  then show ?thesis
    using cid fetch_dates_failed [OF assms(2) cid assms(5,6), of post None]
      get_data_by_date_failed [OF assms(2) cid assms(6)]
    by simp
qed

theorem fetch_failure_aborts_run_witness:
  "main (env0 issued second_day_down) (run0 19) (state0 (Parsed cached_file)) =
     (Inl (DataRequestFailed 503 ''Service Unavailable''),
      (state0 (Parsed cached_file))
        \<lparr>token := JStr ''abc'', client_id := Some (JStr ''id''),
         trace := [data_request (JStr ''id'') (JStr ''abc'') url_request ''2024-01-05'',
                   data_request (JStr ''id'') (JStr ''abc'') url_request ''2024-01-08'']\<rparr>)"
proof -
  let ?s1 = "(state0 (Parsed cached_file))\<lparr>token := JStr ''abc'', client_id := Some (JStr ''id'')\<rparr>"
  have g: "generate_token (env0 issued second_day_down) token_file ((state0 (Parsed cached_file))\<lparr>token := JNull\<rparr>)
      = (Inr (), ?s1)"
    by (simp add: generate_token_def try_block_def cached_token_def cached_file_def creds_file_def
        state0_def env0_def)
  have o: "offset_back (cal (run0 19)) (today (run0 19)) bdays_range = Some 5"
    by (simp add: offset_back.simps bdays_range_def january_def run0_def)
  have q: "seq (cal (run0 19)) 5 (today (run0 19)) = [5] @ 8 # [9, 10, 11, 12, 15, 16, 17, 18, 19]"
    by (simp add: seq_def january_def run0_def upto_rec1)
  have u: "url_request @ ''?data='' @ iso_day 8 \<noteq> url_request @ ''?data=2024-01-05''"
    by (simp add: iso_day_def)
  show ?thesis
    using fetch_failure_aborts_run [OF g _ o q] u
    by (simp add: state0_def env0_def run0_def second_day_down_def unavailable_def iso_day_def)
qed

text \<open>
  Claim C8. When every fetch of the loop succeeds, the assembled table consists, date by
  date in the order of the sequence, of the records the vendor returned for that date, in
  the vendor's order, each with \<^verbatim>\<open>data_referencia\<close> set to that date; a date with no record
  adds no row, and the loop ends normally.
\<close>

theorem assembled_table_rows:
  assumes "truthy (token s)" and "client_id s = Some cid"
    and "dates \<noteq> []"
    and "\<forall>d\<in>set dates.
           status_code (data_endpoint ev (url_request @ ''?data='' @ strftime rn d)) = 200 \<and>
           resp_json (data_endpoint ev (url_request @ ''?data='' @ strftime rn d)) = Some (data d)"
  shows "\<exists>df s'. fetch_dates ev rn dates None s = (Inr (Some df), s') \<and>
           rows df = concat (map (\<lambda>d. map (AList.update ''data_referencia'' (CStr (strftime rn d)))
                                        (records_of (data d))) dates)"
  using fetch_dates_ok [OF assms(1,2,4), of None] assms(3) by auto

theorem assembled_table_rows_witness:
  "\<exists>df s'. fetch_dates (env0 issued three_days) (run0 19) [5, 8, 9] None
              ((state0 (Parsed cached_file))\<lparr>token := JStr ''abc'', client_id := Some (JStr ''id'')\<rparr>)
            = (Inr (Some df), s') \<and>
     rows df =
       [bond ''LTN'' ''2030-01-01'' 5.0 ''2024-01-05'', bond ''NTN-B'' ''2035-05-15'' 6.0 ''2024-01-05'',
        bond ''LTN'' ''2030-01-01'' 5.1 ''2024-01-09'', bond ''LTN'' ''2026-07-01'' 4.9 ''2024-01-09'',
        bond ''NTN-B'' ''2035-05-15'' 6.1 ''2024-01-09'']"
  using assembled_table_rows [where ev = "env0 issued three_days" and rn = "run0 19"
      and dates = "[5, 8, 9]" and data = feed and cid = "JStr ''id''"
      and s = "(state0 (Parsed cached_file))\<lparr>token := JStr ''abc'', client_id := Some (JStr ''id'')\<rparr>"]
  by (simp add: state0_def env0_def run0_def three_days_def iso_day_def feed_def bond_def)

end
